theory Spec2Isabelle
  imports Main "HOL-Library.Word"
begin

unbundle bit_operations_syntax

section \<open>JavaScript strings and the built-ins the plugin calls\<close>

text \<open>
  A JavaScript string is a sequence of 16-bit code units.  Literals of the source are
  written \<open>js ''...''\<close>.
\<close>

type_synonym jsstring = "16 word list"

definition js :: "string \<Rightarrow> jsstring" where
  "js s = map (\<lambda>c. of_nat (of_char c)) s"

text \<open>\<open>String.prototype.includes\<close>, \<open>split\<close> and \<open>replace\<close> with a string pattern, as
  ECMA-262 defines them: \<open>replace\<close> rewrites the first occurrence only, and \<open>split\<close>
  with the empty separator yields the single code units.\<close>

fun startsWith :: "'a list \<Rightarrow> 'a list \<Rightarrow> bool" where
  "startsWith xs [] = True"
| "startsWith [] (p # ps) = False"
| "startsWith (x # xs) (p # ps) = (x = p \<and> startsWith xs ps)"

fun includes_str :: "'a list \<Rightarrow> 'a list \<Rightarrow> bool" where
  "includes_str [] pat = startsWith [] pat"
| "includes_str (x # xs) pat = (startsWith (x # xs) pat \<or> includes_str xs pat)"

fun replace :: "'a list \<Rightarrow> 'a list \<Rightarrow> 'a list \<Rightarrow> 'a list" where
  "replace [] pat rep = (if startsWith [] pat then rep else [])"
| "replace (x # xs) pat rep =
     (if startsWith (x # xs) pat then rep @ drop (length pat) (x # xs)
      else x # replace xs pat rep)"

fun split_from :: "'a list \<Rightarrow> 'a list \<Rightarrow> 'a list \<Rightarrow> 'a list list" where
  "split_from cur [] sep = [rev cur]"
| "split_from cur (x # xs) sep =
     (if sep \<noteq> [] \<and> startsWith (x # xs) sep
      then rev cur # split_from [] (drop (length sep - 1) xs) sep
      else split_from (x # cur) xs sep)"

definition split :: "'a list \<Rightarrow> 'a list \<Rightarrow> 'a list list" where
  "split xs sep = (if sep = [] then map (\<lambda>x. [x]) xs else split_from [] xs sep)"

text \<open>
  \<open>decodeURIComponent\<close>, after the Decode operation of ECMA-262: a \<open>%\<close> must be
  followed by two hexadecimal digits; an octet with its top bit set starts a UTF-8
  sequence whose continuation octets must be escaped as well; anything else throws
  \<open>URIError\<close>.
\<close>

datatype error = URIError

definition hexDigit :: "16 word \<Rightarrow> nat option" where
  "hexDigit c =
     (if 0x30 \<le> c \<and> c \<le> 0x39 then Some (unat c - 0x30)
      else if 0x41 \<le> c \<and> c \<le> 0x46 then Some (unat c - 0x41 + 10)
      else if 0x61 \<le> c \<and> c \<le> 0x66 then Some (unat c - 0x61 + 10)
      else None)"

definition parseHexOctet :: "16 word \<Rightarrow> 16 word \<Rightarrow> nat option" where
  "parseHexOctet h l =
     (case (hexDigit h, hexDigit l) of
        (Some a, Some b) \<Rightarrow> Some (16 * a + b)
      | _ \<Rightarrow> None)"

definition leadingOnes :: "nat \<Rightarrow> nat" where
  "leadingOnes b =
     (if b < 0x80 then 0 else if b < 0xC0 then 1 else if b < 0xE0 then 2
      else if b < 0xF0 then 3 else if b < 0xF8 then 4 else 5)"

fun continuationBytes :: "nat \<Rightarrow> jsstring \<Rightarrow> nat list option" where
  "continuationBytes 0 s = Some []"
| "continuationBytes (Suc j) (c # h # l # s) =
     (if c \<noteq> 0x25 then None
      else case parseHexOctet h l of
             None \<Rightarrow> None
           | Some b \<Rightarrow> map_option ((#) b) (continuationBytes j s))"
| "continuationBytes (Suc j) s = None"

definition isContinuation :: "nat \<Rightarrow> bool" where
  "isContinuation b = (0x80 \<le> b \<and> b < 0xC0)"

fun utf8CodePoint :: "nat list \<Rightarrow> nat option" where
  "utf8CodePoint [b0, b1] =
     (let v = (b0 - 0xC0) * 64 + (b1 - 0x80)
      in if isContinuation b1 \<and> 0x80 \<le> v then Some v else None)"
| "utf8CodePoint [b0, b1, b2] =
     (let v = (b0 - 0xE0) * 4096 + (b1 - 0x80) * 64 + (b2 - 0x80)
      in if isContinuation b1 \<and> isContinuation b2 \<and> 0x800 \<le> v
            \<and> \<not> (0xD800 \<le> v \<and> v \<le> 0xDFFF)
         then Some v else None)"
| "utf8CodePoint [b0, b1, b2, b3] =
     (let v = (b0 - 0xF0) * 262144 + (b1 - 0x80) * 4096 + (b2 - 0x80) * 64 + (b3 - 0x80)
      in if isContinuation b1 \<and> isContinuation b2 \<and> isContinuation b3
            \<and> 0x10000 \<le> v \<and> v \<le> 0x10FFFF
         then Some v else None)"
| "utf8CodePoint bs = None"

definition utf16EncodeCodePoint :: "nat \<Rightarrow> jsstring" where
  "utf16EncodeCodePoint v =
     (if v \<le> 0xFFFF then [of_nat v]
      else [of_nat (0xD800 + (v - 0x10000) div 1024), of_nat (0xDC00 + (v - 0x10000) mod 1024)])"

fun decodeURIComponent :: "jsstring \<Rightarrow> error + jsstring" where
  "decodeURIComponent [] = Inr []"
| "decodeURIComponent (c # s) =
     (if c \<noteq> 0x25 then map_sum id ((#) c) (decodeURIComponent s)
      else case s of
        h # l # s' \<Rightarrow>
          (case parseHexOctet h l of
             None \<Rightarrow> Inl URIError
           | Some b \<Rightarrow>
               let n = leadingOnes b in
               if n = 0 then map_sum id ((#) (of_nat b)) (decodeURIComponent s')
               else if n = 1 \<or> n > 4 then Inl URIError
               else (case continuationBytes (n - 1) s' of
                       None \<Rightarrow> Inl URIError
                     | Some octets \<Rightarrow>
                         (case utf8CodePoint (b # octets) of
                            None \<Rightarrow> Inl URIError
                          | Some v \<Rightarrow>
                              map_sum id ((@) (utf16EncodeCodePoint v))
                                (decodeURIComponent (drop (3 * (n - 1)) s')))))
      | _ \<Rightarrow> Inl URIError)"

section \<open>Asynchronous functions\<close>

text \<open>
  The plugin runs on one event loop.  An \<open>async\<close> function runs without interruption
  up to its next \<open>await sleep(ms)\<close>; there it is suspended, other callbacks may run,
  and when the timer fires the rest of the function continues on the state it then finds.
  An outcome is therefore a result (\<open>Done\<close>), an exception that nobody catches
  (\<open>Failed\<close>), or a suspension: the delay, the state at the suspension, and the
  continuation.
\<close>

datatype ('s, 'a) outcome =
    Done 'a 's
  | Failed error 's
  | Suspended nat 's "'s \<Rightarrow> ('s, 'a) outcome"

primrec andThen :: "('s, 'a) outcome \<Rightarrow> ('a \<Rightarrow> 's \<Rightarrow> ('s, 'b) outcome) \<Rightarrow> ('s, 'b) outcome" where
  "andThen (Done a s) f = f a s"
| "andThen (Failed e s) f = Failed e s"
| "andThen (Suspended ms s k) f = Suspended ms s (\<lambda>s'. andThen (k s') f)"

definition sleep :: "nat \<Rightarrow> 's \<Rightarrow> ('s, unit) outcome" where
  "sleep ms s = Suspended ms s (\<lambda>s'. Done () s')"

text \<open>Running an outcome with nothing interleaved: every timer fires on the state its
  suspension left.  \<open>snapshots\<close> lists the states at the suspensions and at the end,
  \<open>delays\<close> the timers in between.\<close>

primrec complete :: "('s, 'a) outcome \<Rightarrow> (error + 'a) \<times> 's" where
  "complete (Done a s) = (Inr a, s)"
| "complete (Failed e s) = (Inl e, s)"
| "complete (Suspended ms s k) = complete (k s)"

primrec snapshots :: "('s, 'a) outcome \<Rightarrow> 's list" where
  "snapshots (Done a s) = [s]"
| "snapshots (Failed e s) = [s]"
| "snapshots (Suspended ms s k) = s # snapshots (k s)"

primrec delays :: "('s, 'a) outcome \<Rightarrow> nat list" where
  "delays (Done a s) = []"
| "delays (Failed e s) = []"
| "delays (Suspended ms s k) = ms # delays (k s)"

text \<open>\<open>state_of\<close> is the state an outcome leaves when control returns to the event loop;
  \<open>resume\<close> fires its timer on the state \<open>s'\<close> that is current by then.\<close>

primrec state_of :: "('s, 'a) outcome \<Rightarrow> 's" where
  "state_of (Done a s) = s"
| "state_of (Failed e s) = s"
| "state_of (Suspended ms s k) = s"

primrec resume :: "('s, 'a) outcome \<Rightarrow> 's \<Rightarrow> ('s, 'a) outcome" where
  "resume (Done a s) s' = Done a s"
| "resume (Failed e s) s' = Failed e s"
| "resume (Suspended ms s k) s' = k s'"

section \<open>The data of the plugin\<close>

type_synonym uuid = jsstring

record SwitchConfig =
  name :: jsstring

text \<open>A \<open>PlatformAccessory\<close> of the host: its UUID, its display name and the
  \<open>context.switch\<close> object the plugin stored in it.\<close>

record PlatformAccessory =
  UUID :: uuid
  displayName :: jsstring
  context_switch :: SwitchConfig

text \<open>A \<open>PlatformSwitchAccessory\<close>: the accessory it was constructed with and
  \<open>states.On\<close>.\<close>

record PlatformSwitchAccessory =
  accessory :: PlatformAccessory
  states_On :: bool

datatype service = AccessoryInformation | Switch

datatype characteristic = Manufacturer | Model | SerialNumber | Name | On

datatype cvalue = Str jsstring | Bool bool | Undefined

text \<open>What the plugin tells its collaborators: log entries (message and parameters) and
  the calls on the host's services and registry.  \<open>OnSet u i\<close> and \<open>OnGet u i\<close> bind
  the handlers of the controller object \<open>i\<close>.  A registration also passes the plugin and
  platform names, two constants of \<open>settings.ts\<close>, which are left out here.\<close>

datatype event =
    LogDebug jsstring "cvalue list"
  | LogInfo jsstring "cvalue list"
  | LogError jsstring "cvalue list"
  | SetCharacteristic uuid service characteristic cvalue
  | GetOrAddService uuid service
  | OnSet uuid nat
  | OnGet uuid nat
  | UpdateCharacteristic uuid characteristic cvalue
  | RegisterPlatformAccessories "PlatformAccessory list"

text \<open>
  The platform object.  Controller objects live in the store \<open>objects\<close> and are referred
  to by their index there; \<open>instances\<close> is the array of these references.
  \<open>uuid_generate\<close> is \<open>api.hap.uuid.generate\<close>, which the host supplies.
\<close>

record ExampleHomebridgePlatform =
  config_name :: "jsstring option"
  config_switches :: "SwitchConfig list option"
  uuid_generate :: "jsstring \<Rightarrow> uuid"
  requestServer :: "nat option"
  accessories :: "PlatformAccessory list"
  instances :: "nat list"
  objects :: "PlatformSwitchAccessory list"
  events :: "event list"

text \<open>The two fields of a request that the plugin reads, the HTTP verb and the URL.\<close>

record IncomingMessage =
  http_method :: "jsstring option"
  url :: "jsstring option"

record ServerResponse =
  headers :: "(jsstring \<times> jsstring) list"
  writtenHead :: "nat option"
  body :: jsstring
  ended :: bool

definition emit :: "event \<Rightarrow> ExampleHomebridgePlatform \<Rightarrow> ExampleHomebridgePlatform" where
  "emit e s = s\<lparr>events := events s @ [e]\<rparr>"

section \<open>platformAccessory.ts\<close>

definition new_PlatformSwitchAccessory ::
  "PlatformAccessory \<Rightarrow> ExampleHomebridgePlatform \<Rightarrow> nat \<times> ExampleHomebridgePlatform" where
  "new_PlatformSwitchAccessory acc s =
     (let this = length (objects s);
          u = UUID acc
      in (this,
          s\<lparr>objects := objects s @ [\<lparr>accessory = acc, states_On = False\<rparr>],
            events := events s @
              [SetCharacteristic u AccessoryInformation Manufacturer (Str (js ''Default-Manufacturer'')),
               SetCharacteristic u AccessoryInformation Model (Str (js ''Default-Model'')),
               SetCharacteristic u AccessoryInformation SerialNumber (Str (js ''Default-Serial'')),
               GetOrAddService u Switch,
               SetCharacteristic u Switch Name (Str (name (context_switch acc))),
               OnSet u this,
               OnGet u this]\<rparr>))"

definition getName :: "nat \<Rightarrow> ExampleHomebridgePlatform \<Rightarrow> jsstring" where
  "getName this s = name (context_switch (accessory (objects s ! this)))"

definition getOn :: "nat \<Rightarrow> ExampleHomebridgePlatform \<Rightarrow> bool" where
  "getOn this s = states_On (objects s ! this)"

definition setOn :: "nat \<Rightarrow> bool \<Rightarrow> ExampleHomebridgePlatform \<Rightarrow> (ExampleHomebridgePlatform, unit) outcome" where
  \<open>setOn this v s =
     (let s1 = emit (LogInfo (js ''Set Characteristic On -> for "'' @ getName this s @ js ''"'') [Bool v]) s;
          s2 = s1\<lparr>objects := (objects s1)[this := (objects s1 ! this)\<lparr>states_On := v\<rparr>]\<rparr>
      in sleep 300 s2)\<close>

definition updateCharacteristic_On :: "nat \<Rightarrow> ExampleHomebridgePlatform \<Rightarrow> ExampleHomebridgePlatform" where
  "updateCharacteristic_On this s =
     emit (UpdateCharacteristic (UUID (accessory (objects s ! this))) On (Bool (states_On (objects s ! this)))) s"

definition toggleState :: "nat \<Rightarrow> ExampleHomebridgePlatform \<Rightarrow> (ExampleHomebridgePlatform, unit) outcome" where
  "toggleState this s =
     (let isOn = getOn this s
      in andThen (setOn this (\<not> isOn) s)
           (\<lambda>_ s'. Done () (updateCharacteristic_On this s')))"

definition setStateOn :: "nat \<Rightarrow> ExampleHomebridgePlatform \<Rightarrow> (ExampleHomebridgePlatform, unit) outcome" where
  "setStateOn this s =
     andThen (setOn this True s) (\<lambda>_ s1.
     andThen (sleep 1500 (updateCharacteristic_On this s1)) (\<lambda>_ s2.
     andThen (setOn this False s2) (\<lambda>_ s3.
     Done () (updateCharacteristic_On this s3))))"

section \<open>platform.ts\<close>

text \<open>The constructor: both arrays start empty; the server is created later.\<close>

definition new_ExampleHomebridgePlatform ::
  "jsstring option \<Rightarrow> SwitchConfig list option \<Rightarrow> (jsstring \<Rightarrow> uuid) \<Rightarrow> ExampleHomebridgePlatform" where
  "new_ExampleHomebridgePlatform cname cswitches gen =
     \<lparr>config_name = cname, config_switches = cswitches, uuid_generate = gen,
      requestServer = None, accessories = [], instances = [], objects = [],
      events = [LogDebug (js ''Finished initializing platform:'')
                  [case cname of None \<Rightarrow> Undefined | Some n \<Rightarrow> Str n]]\<rparr>"

text \<open>\<open>createHttpService\<close> creates the server and asks it to listen on port 18082; the
  callback of \<open>listen\<close> writes its log entry once the port is bound.\<close>

definition createHttpService :: "ExampleHomebridgePlatform \<Rightarrow> ExampleHomebridgePlatform" where
  "createHttpService s = s\<lparr>requestServer := Some 18082\<rparr>"

definition onListening :: "ExampleHomebridgePlatform \<Rightarrow> ExampleHomebridgePlatform" where
  "onListening s = emit (LogInfo (js ''Http server listening on 18082...'') []) s"

definition new_ServerResponse :: ServerResponse where
  "new_ServerResponse = \<lparr>headers = [], writtenHead = None, body = [], ended = False\<rparr>"

definition setHeader :: "jsstring \<Rightarrow> jsstring \<Rightarrow> ServerResponse \<Rightarrow> ServerResponse" where
  "setHeader h v res = res\<lparr>headers := filter (\<lambda>p. fst p \<noteq> h) (headers res) @ [(h, v)]\<rparr>"

definition writeHead :: "nat \<Rightarrow> ServerResponse \<Rightarrow> ServerResponse" where
  "writeHead code res = res\<lparr>writtenHead := Some code\<rparr>"

definition end_response :: "ServerResponse \<Rightarrow> ServerResponse" where
  "end_response res = res\<lparr>ended := True\<rparr>"

text \<open>The name \<open>handleRequest\<close> looks up: the second piece of the URL split at \<open>?\<close>,
  with the first \<open>name=\<close> deleted, then decoded.\<close>

definition requested_name :: "jsstring \<Rightarrow> error + jsstring" where
  "requested_name u =
     (let query = (case (if u \<noteq> [] then split u (js ''?'') else []) of
                     _ # q # _ \<Rightarrow> Some q
                   | _ \<Rightarrow> None);
          nameRaw = (case query of
                       Some q \<Rightarrow> if q \<noteq> [] then replace q (js ''name='') [] else []
                     | None \<Rightarrow> [])
      in decodeURIComponent nameRaw)"

definition handleRequest ::
  "IncomingMessage \<Rightarrow> ServerResponse \<Rightarrow> ExampleHomebridgePlatform
     \<Rightarrow> (ExampleHomebridgePlatform, ServerResponse) outcome" where
  "handleRequest request response s =
     andThen
       (case url request of
          None \<Rightarrow> Done () s
        | Some u \<Rightarrow>
            if includes_str u (js ''/toggle'') then
              (case requested_name u of
                 Inl e \<Rightarrow> Failed e s
               | Inr nm \<Rightarrow>
                   (case find (\<lambda>i. getName i s = nm) (instances s) of
                      Some instance \<Rightarrow> toggleState instance s
                    | None \<Rightarrow>
                        Done () (emit (LogError (js ''Could not find instance for name:'') [Str nm]) s)))
            else Done () s)
       (\<lambda>_ s'. Done (end_response (writeHead 204 response)) s')"

text \<open>The callback given to \<open>http.createServer\<close>: it first sets the four CORS
  headers, answers a preflight request itself, and hands every other request to
  \<open>handleRequest\<close>.\<close>

definition setCorsHeaders :: "ServerResponse \<Rightarrow> ServerResponse" where
  "setCorsHeaders res =
     setHeader (js ''Access-Control-Allow-Credentials'') (js ''true'')
       (setHeader (js ''Access-Control-Allow-Headers'') (js ''X-Requested-With,content-type'')
         (setHeader (js ''Access-Control-Allow-Methods'') (js ''GET, POST, OPTIONS, PUT, PATCH, DELETE'')
           (setHeader (js ''Access-Control-Allow-Origin'') (js ''*'') res)))"

definition requestListener ::
  "IncomingMessage \<Rightarrow> ServerResponse \<Rightarrow> ExampleHomebridgePlatform
     \<Rightarrow> (ExampleHomebridgePlatform, ServerResponse) outcome" where
  "requestListener req res0 s =
     (let res = setCorsHeaders res0
      in if http_method req = Some (js ''OPTIONS'')
         then Done (end_response (writeHead 200 res)) s
         else handleRequest req res s)"

definition configureAccessory :: "PlatformAccessory \<Rightarrow> ExampleHomebridgePlatform \<Rightarrow> ExampleHomebridgePlatform" where
  "configureAccessory acc s =
     (let s1 = emit (LogInfo (js ''Loading accessory from cache:'') [Str (displayName acc)]) s
      in s1\<lparr>accessories := accessories s1 @ [acc]\<rparr>)"

text \<open>The body of the \<open>for\<close> loop of \<open>discoverDevices\<close>, for one configured switch.\<close>

definition discoverDevice :: "SwitchConfig \<Rightarrow> ExampleHomebridgePlatform \<Rightarrow> ExampleHomebridgePlatform" where
  "discoverDevice button s =
     (let uuid = uuid_generate s (name button)
      in case find (\<lambda>acc. UUID acc = uuid) (accessories s) of
           Some existingAccessory \<Rightarrow>
             (let s1 = emit (LogInfo (js ''Restoring existing accessory from cache:'')
                               [Str (displayName existingAccessory)]) s;
                  (instance, s2) = new_PlatformSwitchAccessory existingAccessory s1
              in s2\<lparr>instances := instances s2 @ [instance]\<rparr>)
         | None \<Rightarrow>
             (let s1 = emit (LogInfo (js ''Adding new accessory:'') [Str (name button)]) s;
                  acc = \<lparr>UUID = uuid, displayName = name button, context_switch = button\<rparr>;
                  (instance, s2) = new_PlatformSwitchAccessory acc s1;
                  s3 = s2\<lparr>instances := instances s2 @ [instance]\<rparr>
              in emit (RegisterPlatformAccessories [acc]) s3))"

fun discoverLoop :: "SwitchConfig list \<Rightarrow> ExampleHomebridgePlatform \<Rightarrow> ExampleHomebridgePlatform" where
  "discoverLoop [] s = s"
| "discoverLoop (button # switches) s = discoverLoop switches (discoverDevice button s)"

definition discoverDevices :: "ExampleHomebridgePlatform \<Rightarrow> ExampleHomebridgePlatform" where
  "discoverDevices s =
     (case config_switches s of
        None \<Rightarrow> s
      | Some switches \<Rightarrow> discoverLoop switches s)"

text \<open>The cached record the loop body finds for a configured switch, if any.\<close>

definition cached_for :: "ExampleHomebridgePlatform \<Rightarrow> SwitchConfig \<Rightarrow> PlatformAccessory option" where
  "cached_for s button = find (\<lambda>acc. UUID acc = uuid_generate s (name button)) (accessories s)"

text \<open>The handler of the host's \<open>didFinishLaunching\<close> event.\<close>

definition didFinishLaunching :: "ExampleHomebridgePlatform \<Rightarrow> ExampleHomebridgePlatform" where
  "didFinishLaunching s = discoverDevices (createHttpService s)"


section \<open>The process: host callbacks, requests and timers\<close>

text \<open>
  A suspended function waits in \<open>timers\<close>.  The host first hands over the cached
  accessories, then fires \<open>didFinishLaunching\<close>; requests arrive once the server
  listens; the host's get and set handlers and the controller's other methods can be
  called on every constructed controller.  Any waiting timer may fire next, which covers
  every order the event loop can choose.
\<close>

datatype task =
    HttpTask "ExampleHomebridgePlatform \<Rightarrow> (ExampleHomebridgePlatform, ServerResponse) outcome"
  | ControllerTask "ExampleHomebridgePlatform \<Rightarrow> (ExampleHomebridgePlatform, unit) outcome"

record process =
  platform :: ExampleHomebridgePlatform
  launched :: bool
  listening :: bool
  timers :: "task list"
  sent :: "ServerResponse list"

datatype action =
    ConfigureAccessory PlatformAccessory
  | DidFinishLaunching
  | Listening
  | Request IncomingMessage
  | CallGetOn nat
  | CallSetOn nat bool
  | CallToggleState nat
  | CallSetStateOn nat
  | TimerFires nat

definition boot :: "jsstring option \<Rightarrow> SwitchConfig list option \<Rightarrow> (jsstring \<Rightarrow> uuid) \<Rightarrow> process" where
  "boot cname cswitches gen =
     \<lparr>platform = new_ExampleHomebridgePlatform cname cswitches gen,
      launched = False, listening = False, timers = [], sent = []\<rparr>"

definition settle_http :: "(ExampleHomebridgePlatform, ServerResponse) outcome \<Rightarrow> process \<Rightarrow> process" where
  "settle_http out p =
     (case out of
        Done res s \<Rightarrow> p\<lparr>platform := s, sent := sent p @ [res]\<rparr>
      | Failed e s \<Rightarrow> p\<lparr>platform := s\<rparr>
      | Suspended ms s k \<Rightarrow> p\<lparr>platform := s, timers := timers p @ [HttpTask k]\<rparr>)"

definition settle_controller :: "(ExampleHomebridgePlatform, unit) outcome \<Rightarrow> process \<Rightarrow> process" where
  "settle_controller out p =
     (case out of
        Done u s \<Rightarrow> p\<lparr>platform := s\<rparr>
      | Failed e s \<Rightarrow> p\<lparr>platform := s\<rparr>
      | Suspended ms s k \<Rightarrow> p\<lparr>platform := s, timers := timers p @ [ControllerTask k]\<rparr>)"

fun perform :: "action \<Rightarrow> process \<Rightarrow> process option" where
  "perform (ConfigureAccessory acc) p =
     (if launched p then None
      else Some (p\<lparr>platform := configureAccessory acc (platform p)\<rparr>))"
| "perform DidFinishLaunching p =
     (if launched p then None
      else Some (p\<lparr>platform := didFinishLaunching (platform p), launched := True\<rparr>))"
| "perform Listening p =
     (if requestServer (platform p) \<noteq> None \<and> \<not> listening p
      then Some (p\<lparr>platform := onListening (platform p), listening := True\<rparr>)
      else None)"
| "perform (Request req) p =
     (if listening p
      then Some (settle_http (requestListener req new_ServerResponse (platform p)) p)
      else None)"
| "perform (CallGetOn i) p =
     (if i < length (objects (platform p)) then Some p else None)"
| "perform (CallSetOn i v) p =
     (if i < length (objects (platform p))
      then Some (settle_controller (setOn i v (platform p)) p) else None)"
| "perform (CallToggleState i) p =
     (if i < length (objects (platform p))
      then Some (settle_controller (toggleState i (platform p)) p) else None)"
| "perform (CallSetStateOn i) p =
     (if i < length (objects (platform p))
      then Some (settle_controller (setStateOn i (platform p)) p) else None)"
| "perform (TimerFires j) p =
     (if j < length (timers p)
      then (let p' = p\<lparr>timers := take j (timers p) @ drop (Suc j) (timers p)\<rparr>
            in case timers p ! j of
                 HttpTask k \<Rightarrow> Some (settle_http (k (platform p)) p')
               | ControllerTask k \<Rightarrow> Some (settle_controller (k (platform p)) p'))
      else None)"

fun run :: "action list \<Rightarrow> process \<Rightarrow> process option" where
  "run [] p = Some p"
| "run (a # as) p = (case perform a p of None \<Rightarrow> None | Some p' \<Rightarrow> run as p')"

text \<open>A function is \<open>stable\<close> for an observation \<open>f\<close> when \<open>f\<close> has the value \<open>m\<close> at
  every state it leaves behind and, resumed on any state, keeps the value it finds.\<close>

primrec stable :: "('s \<Rightarrow> 'm) \<Rightarrow> 'm \<Rightarrow> ('s, 'a) outcome \<Rightarrow> bool" where
  "stable f m (Done a s) = (f s = m)"
| "stable f m (Failed e s) = (f s = m)"
| "stable f m (Suspended ms s k) = (f s = m \<and> (\<forall>s'. stable f (f s') (k s')))"

primrec task_stable :: "task \<Rightarrow> bool" where
  "task_stable (HttpTask k) = (\<forall>s. stable instances (instances s) (k s))"
| "task_stable (ControllerTask k) = (\<forall>s. stable instances (instances s) (k s))"

text \<open>The invariant of the process: every waiting function is stable for \<open>instances\<close>,
  and before launch the array is empty.\<close>

definition process_inv :: "process \<Rightarrow> bool" where
  "process_inv p \<longleftrightarrow>
     (\<forall>t\<in>set (timers p). task_stable t) \<and> (\<not> launched p \<longrightarrow> instances (platform p) = [])"

section \<open>Example configurations\<close>

definition kitchen :: SwitchConfig where
  "kitchen = \<lparr>name = js ''Kitchen''\<rparr>"

definition garage :: SwitchConfig where
  "garage = \<lparr>name = js ''Garage''\<rparr>"

definition example_generate :: "jsstring \<Rightarrow> uuid" where
  "example_generate nm = js ''uuid-'' @ nm"

definition cached :: "SwitchConfig \<Rightarrow> PlatformAccessory" where
  "cached button =
     \<lparr>UUID = example_generate (name button), displayName = name button, context_switch = button\<rparr>"

text \<open>A platform with two configured switches and nothing in the cache, after launch.\<close>

definition kitchen_garage :: ExampleHomebridgePlatform where
  "kitchen_garage =
     didFinishLaunching (new_ExampleHomebridgePlatform None (Some [kitchen, garage]) example_generate)"



definition get_request :: "string \<Rightarrow> IncomingMessage" where
  "get_request u = \<lparr>http_method = Some (js ''GET''), url = Some (js u)\<rparr>"

text \<open>A start of the process: one record restored from the cache, launch, the server
  listening, and one toggle request, which leaves its timer waiting.\<close>

definition example_actions :: "action list" where
  "example_actions =
     [ConfigureAccessory (cached kitchen), DidFinishLaunching, Listening,
      Request (get_request ''/toggle?name=Kitchen'')]"

section \<open>Basic facts\<close>

lemma objects_emit [simp]: "objects (emit e s) = objects s"
  by (simp add: emit_def)

lemma instances_emit [simp]: "instances (emit e s) = instances s"
  by (simp add: emit_def)

lemma accessories_emit [simp]: "accessories (emit e s) = accessories s"
  by (simp add: emit_def)

lemma events_emit [simp]: "events (emit e s) = events s @ [e]"
  by (simp add: emit_def)

lemma config_switches_emit [simp]: "config_switches (emit e s) = config_switches s"
  by (simp add: emit_def)

lemma uuid_generate_emit [simp]: "uuid_generate (emit e s) = uuid_generate s"
  by (simp add: emit_def)

lemma kitchen_garage_objects:
  "objects kitchen_garage =
     [\<lparr>accessory = cached kitchen, states_On = False\<rparr>,
      \<lparr>accessory = cached garage, states_On = False\<rparr>]"
  by (simp add: kitchen_garage_def didFinishLaunching_def discoverDevices_def
      createHttpService_def new_ExampleHomebridgePlatform_def discoverDevice_def
      new_PlatformSwitchAccessory_def Let_def cached_def)

lemma kitchen_garage_instances: "instances kitchen_garage = [0, 1]"
  by (simp add: kitchen_garage_def didFinishLaunching_def discoverDevices_def
      createHttpService_def new_ExampleHomebridgePlatform_def discoverDevice_def
      new_PlatformSwitchAccessory_def Let_def)

lemma kitchen_garage_names:
  "getName 0 kitchen_garage = js ''Kitchen''" "getName (Suc 0) kitchen_garage = js ''Garage''"
  by (simp_all add: getName_def kitchen_garage_objects cached_def kitchen_def garage_def)

section \<open>The switch controller\<close>

text \<open>
  C3.  \<open>toggleState\<close>, run to completion with nothing interleaved, returns normally and
  negates the stored On state of its controller; a second such call restores the state
  the first one found.  In particular a controller that is off is on after one toggle
  and off again after two.
\<close>

theorem toggleState_negates:
  assumes "this < length (objects s)"
  shows "fst (complete (toggleState this s)) = Inr ()
       \<and> getOn this (snd (complete (toggleState this s))) = (\<not> getOn this s)
       \<and> getOn this (snd (complete (toggleState this (snd (complete (toggleState this s))))))
           = getOn this s"
  using assms
  by (simp add: toggleState_def setOn_def sleep_def getOn_def updateCharacteristic_On_def Let_def)

theorem toggleState_negates_witness:
  "(0::nat) < length (objects kitchen_garage)
   \<and> getOn 0 kitchen_garage = False
   \<and> fst (complete (toggleState 0 kitchen_garage)) = Inr ()
   \<and> getOn 0 (snd (complete (toggleState 0 kitchen_garage))) = True
   \<and> getOn 0 (snd (complete (toggleState 0 (snd (complete (toggleState 0 kitchen_garage))))))
       = False"
proof -
  have h: "(0::nat) < length (objects kitchen_garage)"
    by (simp add: kitchen_garage_objects)
  have off: "getOn 0 kitchen_garage = False"
    by (simp add: getOn_def kitchen_garage_objects)
  show ?thesis
    using h off toggleState_negates [of 0 kitchen_garage, OF h] by simp
qed

text \<open>
  C4.  \<open>setOn v\<close> writes its log entry (the switch name inside the message, the target
  value as parameter) and assigns the On state before it suspends on its one timer of
  300 ms: \<open>getOn\<close> on the state the call leaves at the suspension returns \<open>v\<close>.  When
  the timer fires, on whatever state is current then, the call completes and changes
  nothing.
\<close>

theorem setOn_assigns_before_delay:
  assumes "this < length (objects s)"
  shows \<open>delays (setOn this v s) = [300]
       \<and> getOn this (state_of (setOn this v s)) = v
       \<and> events (state_of (setOn this v s)) = events s @
            [LogInfo (js ''Set Characteristic On -> for "'' @ getName this s @ js ''"'') [Bool v]]
       \<and> resume (setOn this v s) s' = Done () s'\<close>
  using assms by (simp add: setOn_def sleep_def getOn_def Let_def)

theorem setOn_assigns_before_delay_witness:
  \<open>(0::nat) < length (objects kitchen_garage)
   \<and> delays (setOn 0 True kitchen_garage) = [300]
   \<and> getOn 0 (state_of (setOn 0 True kitchen_garage)) = True
   \<and> events (state_of (setOn 0 True kitchen_garage)) = events kitchen_garage @
        [LogInfo (js ''Set Characteristic On -> for "Kitchen"'') [Bool True]]
   \<and> resume (setOn 0 True kitchen_garage) kitchen_garage = Done () kitchen_garage\<close>
proof -
  have h: "(0::nat) < length (objects kitchen_garage)"
    by (simp add: kitchen_garage_objects)
  show ?thesis
    using h setOn_assigns_before_delay [of 0 kitchen_garage True kitchen_garage, OF h]
    by (simp add: kitchen_garage_names js_def)
qed

text \<open>
  C5.  \<open>setStateOn\<close> is the pulse: it sets On and suspends for 300 ms, propagates the
  value to the host and holds for 1500 ms, sets Off and suspends for 300 ms, and
  propagates again.  With nothing interleaved the On state at the three suspensions and
  at the end is true, true, false, false, and the host is told true, then false.
\<close>

theorem setStateOn_pulse:
  assumes "this < length (objects s)"
  shows \<open>map (getOn this) (snapshots (setStateOn this s)) = [True, True, False, False]
       \<and> delays (setStateOn this s) = [300, 1500, 300]
       \<and> fst (complete (setStateOn this s)) = Inr ()
       \<and> getOn this (snd (complete (setStateOn this s))) = False
       \<and> events (snd (complete (setStateOn this s))) = events s @
           [LogInfo (js ''Set Characteristic On -> for "'' @ getName this s @ js ''"'') [Bool True],
            UpdateCharacteristic (UUID (accessory (objects s ! this))) On (Bool True),
            LogInfo (js ''Set Characteristic On -> for "'' @ getName this s @ js ''"'') [Bool False],
            UpdateCharacteristic (UUID (accessory (objects s ! this))) On (Bool False)]\<close>
  using assms
  by (simp add: setStateOn_def setOn_def sleep_def getOn_def getName_def
      updateCharacteristic_On_def Let_def)

theorem setStateOn_pulse_witness:
  \<open>(0::nat) < length (objects kitchen_garage)
   \<and> getOn 0 kitchen_garage = False
   \<and> map (getOn 0) (snapshots (setStateOn 0 kitchen_garage)) = [True, True, False, False]
   \<and> delays (setStateOn 0 kitchen_garage) = [300, 1500, 300]
   \<and> getOn 0 (snd (complete (setStateOn 0 kitchen_garage))) = False\<close>
proof -
  have h: "(0::nat) < length (objects kitchen_garage)"
    by (simp add: kitchen_garage_objects)
  have off: "getOn 0 kitchen_garage = False"
    by (simp add: getOn_def kitchen_garage_objects)
  show ?thesis
    using h off setStateOn_pulse [of 0 kitchen_garage, OF h] by simp
qed

section \<open>The local command endpoint\<close>

subsection \<open>What the handler reads from the URL\<close>

lemma js_question: "js ''?'' = [0x3F]"
  by (simp add: js_def)

lemma split_from_no_sep:
  "c \<notin> set xs \<Longrightarrow> split_from cur xs [c] = [rev cur @ xs]"
  by (induction xs arbitrary: cur) auto

lemma split_from_one_sep:
  "c \<notin> set xs \<Longrightarrow> c \<notin> set ys \<Longrightarrow> split_from cur (xs @ c # ys) [c] = [rev cur @ xs, ys]"
  by (induction xs arbitrary: cur) (auto simp: split_from_no_sep [of _ _ "[]", simplified])

lemma startsWith_append: "startsWith (pat @ v) pat"
  by (induction pat) auto

lemma replace_prefix: "replace (pat @ v) pat [] = v"
proof (cases "pat @ v")
  case Nil
  then show ?thesis by simp
next
  case (Cons a list)
  have sw: "startsWith (a # list) pat"
    using startsWith_append [of pat v] Cons by simp
  have "replace (a # list) pat [] = drop (length pat) (a # list)"
    using sw by simp
  also have "\<dots> = v"
    using Cons [symmetric] by simp
  finally show ?thesis
    using Cons by simp
qed

lemma requested_name_no_query:
  assumes "0x3F \<notin> set u"
  shows "requested_name u = Inr []"
  using assms by (simp add: requested_name_def split_def js_question split_from_no_sep [of _ _ "[]", simplified] split: list.split)

lemma js_append: "js (a @ b) = js a @ js b"
  by (simp add: js_def)

lemma requested_name_single:
  assumes "0x3F \<notin> set p" "0x3F \<notin> set v"
  shows "requested_name (p @ js ''?name='' @ v) = decodeURIComponent v"
proof -
  have q: "js ''?name='' = 0x3F # js ''name=''"
    by (simp add: js_def)
  have ne: "js ''name='' @ v \<noteq> []"
    by (simp add: js_def)
  have "split (p @ js ''?name='' @ v) (js ''?'') = [p, js ''name='' @ v]"
    using assms split_from_one_sep [of "0x3F" p "js ''name='' @ v" "[]"]
    by (simp add: split_def js_question q) (simp add: js_def)
  then show ?thesis
    using ne by (simp add: requested_name_def replace_prefix q)
qed

lemma find_first:
  assumes "k < length xs" "P (xs ! k)" "\<forall>j<k. \<not> P (xs ! j)"
  shows "find P xs = Some (xs ! k)"
  using assms by (auto simp: find_Some_iff)

lemma get_request_simps [simp]:
  "http_method (get_request u) = Some (js ''GET'')" "url (get_request u) = Some (js u)"
  by (simp_all add: get_request_def)

subsection \<open>A name that matches no controller\<close>

lemma requestListener_unmatched:
  assumes "http_method req \<noteq> Some (js ''OPTIONS'')"
    and "url req = Some u"
    and "includes_str u (js ''/toggle'')"
    and "requested_name u = Inr nm"
    and "\<forall>i\<in>set (instances s). getName i s \<noteq> nm"
  shows "requestListener req res s =
           Done (end_response (writeHead 204 (setCorsHeaders res)))
             (emit (LogError (js ''Could not find instance for name:'') [Str nm]) s)"
proof -
  have f: "find (\<lambda>i. getName i s = nm) (instances s) = None"
    using assms(5) by (simp add: find_None_iff)
  show ?thesis
    using assms(1-4) f by (simp add: requestListener_def handleRequest_def)
qed

lemma response_204:
  "writtenHead (end_response (writeHead 204 res)) = Some 204"
  "ended (end_response (writeHead 204 res))"
  "body (end_response (writeHead 204 (setCorsHeaders res))) = body res"
  by (simp_all add: end_response_def writeHead_def setCorsHeaders_def setHeader_def)

subsection \<open>Routing\<close>

text \<open>
  C2, as the code has it.  Take a request that is not a preflight, whose URL contains
  \<open>/toggle\<close> and whose query string is the one parameter \<open>name=v\<close>: the URL is
  \<open>p?name=v\<close> with no other \<open>?\<close> and no \<open>&\<close>.  The handler percent-decodes \<open>v\<close>;
  when that succeeds, the first controller of \<open>instances\<close> whose \<open>getName\<close> equals the
  decoded name is toggled at once and no other controller object changes; the host is
  told the new value and the request is answered with 204 when the toggle has completed,
  300 ms later.
\<close>

theorem toggle_routes_by_requested_name:
  assumes "http_method req \<noteq> Some (js ''OPTIONS'')"
    and "url req = Some (p @ js ''?name='' @ v)"
    and "includes_str (p @ js ''?name='' @ v) (js ''/toggle'')"
    and "0x3F \<notin> set p" and "0x3F \<notin> set v" and "0x26 \<notin> set v"
    and "decodeURIComponent v = Inr nm"
    and "k < length (instances s)"
    and "instances s ! k = i"
    and "getName i s = nm"
    and "\<forall>j<k. getName (instances s ! j) s \<noteq> nm"
    and "i < length (objects s)"
  shows \<open>delays (requestListener req res s) = [300]
       \<and> objects (state_of (requestListener req res s))
           = (objects s)[i := (objects s ! i)\<lparr>states_On := \<not> getOn i s\<rparr>]
       \<and> fst (complete (requestListener req res s))
           = Inr (end_response (writeHead 204 (setCorsHeaders res)))
       \<and> objects (snd (complete (requestListener req res s)))
           = (objects s)[i := (objects s ! i)\<lparr>states_On := \<not> getOn i s\<rparr>]
       \<and> events (snd (complete (requestListener req res s))) = events s @
           [LogInfo (js ''Set Characteristic On -> for "'' @ nm @ js ''"'') [Bool (\<not> getOn i s)],
            UpdateCharacteristic (UUID (accessory (objects s ! i))) On (Bool (\<not> getOn i s))]\<close>
proof -
  have n: "requested_name (p @ js ''?name='' @ v) = Inr nm"
    using requested_name_single [OF assms(4,5)] assms(7) by simp
  have f: "find (\<lambda>i. getName i s = nm) (instances s) = Some i"
    using find_first [of k "instances s" "\<lambda>i. getName i s = nm"] assms(8-11) by simp
  have out: "requestListener req res s =
      andThen (toggleState i s) (\<lambda>_ s'. Done (end_response (writeHead 204 (setCorsHeaders res))) s')"
    using assms(1-3) n f by (simp add: requestListener_def handleRequest_def)
  show ?thesis
    using assms(10,12)
    by (simp add: out toggleState_def setOn_def sleep_def getOn_def
        updateCharacteristic_On_def Let_def)
qed

theorem toggle_routes_by_requested_name_witness:
  "getName 0 kitchen_garage = js ''Kitchen''
   \<and> js ''/toggle?name=Kitchen'' = js ''/toggle'' @ js ''?name='' @ js ''Kitchen''
   \<and> map states_On (objects kitchen_garage) = [False, False]
   \<and> delays (requestListener (get_request ''/toggle?name=Kitchen'') new_ServerResponse kitchen_garage) = [300]
   \<and> map states_On (objects (state_of
        (requestListener (get_request ''/toggle?name=Kitchen'') new_ServerResponse kitchen_garage)))
       = [True, False]
   \<and> map states_On (objects (snd (complete
        (requestListener (get_request ''/toggle?name=Kitchen'') new_ServerResponse kitchen_garage))))
       = [True, False]"
proof -
  have u: "js ''/toggle?name=Kitchen'' = js ''/toggle'' @ js ''?name='' @ js ''Kitchen''"
    by (simp add: js_def)
  have a1: "http_method (get_request ''/toggle?name=Kitchen'') \<noteq> Some (js ''OPTIONS'')"
    by (simp add: js_def)
  have a2: "url (get_request ''/toggle?name=Kitchen'')
              = Some (js ''/toggle'' @ js ''?name='' @ js ''Kitchen'')"
    by (simp add: js_def)
  have a3: "includes_str (js ''/toggle'' @ js ''?name='' @ js ''Kitchen'') (js ''/toggle'')"
    by (simp add: js_def)
  have a4: "0x3F \<notin> set (js ''/toggle'')"
    by (simp add: js_def)
  have a5: "0x3F \<notin> set (js ''Kitchen'')"
    by (simp add: js_def)
  have a6: "0x26 \<notin> set (js ''Kitchen'')"
    by (simp add: js_def)
  have a7: "decodeURIComponent (js ''Kitchen'') = Inr (js ''Kitchen'')"
    by (simp add: js_def)
  have a8: "0 < length (instances kitchen_garage)"
    by (simp add: kitchen_garage_instances)
  have a9: "instances kitchen_garage ! 0 = 0"
    by (simp add: kitchen_garage_instances)
  have a10: "getName 0 kitchen_garage = js ''Kitchen''"
    by (rule kitchen_garage_names)
  have a11: "\<forall>j<0. getName (instances kitchen_garage ! j) kitchen_garage \<noteq> js ''Kitchen''"
    by simp
  have a12: "0 < length (objects kitchen_garage)"
    by (simp add: kitchen_garage_objects)
  show ?thesis
    using toggle_routes_by_requested_name [OF a1 a2 a3 a4 a5 a6 a7 a8 a9 a10 a11 a12,
        of new_ServerResponse] a10 u
    by (simp add: kitchen_garage_objects getOn_def)
qed

text \<open>With other parameters in the query string the name looked up is not the value of
  the key \<open>name\<close>: for \<open>/toggle?id=7&name=Kitchen\<close> it is \<open>id=7&Kitchen\<close>, and the
  Kitchen controller stays off.\<close>

theorem name_key_not_isolated_counterexample:
  "getName 0 kitchen_garage = js ''Kitchen''
   \<and> getOn 0 kitchen_garage = False
   \<and> requested_name (js ''/toggle?id=7&name=Kitchen'') = Inr (js ''id=7&Kitchen'')
   \<and> getOn 0 (snd (complete
        (requestListener (get_request ''/toggle?id=7&name=Kitchen'') new_ServerResponse kitchen_garage)))
       = False"
proof -
  have a1: "http_method (get_request ''/toggle?id=7&name=Kitchen'') \<noteq> Some (js ''OPTIONS'')"
    by (simp add: js_def)
  have a3: "includes_str (js ''/toggle?id=7&name=Kitchen'') (js ''/toggle'')"
    by (simp add: js_def)
  have a4: "requested_name (js ''/toggle?id=7&name=Kitchen'') = Inr (js ''id=7&Kitchen'')"
    by (simp add: requested_name_def split_def js_def)
  have a5: "\<forall>i\<in>set (instances kitchen_garage). getName i kitchen_garage \<noteq> js ''id=7&Kitchen''"
    by (simp add: kitchen_garage_instances kitchen_garage_names) (simp add: js_def)
  have off: "getOn 0 kitchen_garage = False"
    by (simp add: getOn_def kitchen_garage_objects)
  show ?thesis
    using requestListener_unmatched [OF a1 _ a3 a4 a5, of new_ServerResponse] a4 off
    by (simp add: kitchen_garage_names getOn_def)
qed

text \<open>
  C6.  When the name a toggle request asks for is the name of no controller in
  \<open>instances\<close>, the handler completes at once: no controller object changes, one error
  entry with that name is logged, and the response is 204 with nothing written to the
  body.
\<close>

theorem unknown_name_is_logged:
  assumes "http_method req \<noteq> Some (js ''OPTIONS'')"
    and "url req = Some u"
    and "includes_str u (js ''/toggle'')"
    and "requested_name u = Inr nm"
    and "\<forall>i\<in>set (instances s). getName i s \<noteq> nm"
  shows "requestListener req res s =
           Done (end_response (writeHead 204 (setCorsHeaders res)))
             (emit (LogError (js ''Could not find instance for name:'') [Str nm]) s)
       \<and> objects (state_of (requestListener req res s)) = objects s
       \<and> writtenHead (end_response (writeHead 204 (setCorsHeaders res))) = Some 204
       \<and> body (end_response (writeHead 204 (setCorsHeaders res))) = body res"
  using requestListener_unmatched [OF assms] by (simp add: response_204)

theorem unknown_name_is_logged_witness:
  "requestListener (get_request ''/toggle?name=Unknown'') new_ServerResponse kitchen_garage =
     Done (end_response (writeHead 204 (setCorsHeaders new_ServerResponse)))
       (emit (LogError (js ''Could not find instance for name:'') [Str (js ''Unknown'')]) kitchen_garage)
   \<and> objects (state_of (requestListener (get_request ''/toggle?name=Unknown'') new_ServerResponse kitchen_garage))
       = objects kitchen_garage
   \<and> writtenHead (end_response (writeHead 204 (setCorsHeaders new_ServerResponse))) = Some 204
   \<and> body (end_response (writeHead 204 (setCorsHeaders new_ServerResponse))) = []"
proof -
  have a1: "http_method (get_request ''/toggle?name=Unknown'') \<noteq> Some (js ''OPTIONS'')"
    by (simp add: js_def)
  have a2: "url (get_request ''/toggle?name=Unknown'') = Some (js ''/toggle?name=Unknown'')"
    by simp
  have a3: "includes_str (js ''/toggle?name=Unknown'') (js ''/toggle'')"
    by (simp add: js_def)
  have a4: "requested_name (js ''/toggle?name=Unknown'') = Inr (js ''Unknown'')"
    by (simp add: requested_name_def split_def js_def)
  have a5: "\<forall>i\<in>set (instances kitchen_garage). getName i kitchen_garage \<noteq> js ''Unknown''"
    by (simp add: kitchen_garage_instances kitchen_garage_names) (simp add: js_def)
  show ?thesis
    using unknown_name_is_logged [OF a1 a2 a3 a4 a5, of new_ServerResponse]
    by (simp add: new_ServerResponse_def)
qed

text \<open>
  C7.  Every request that is not a preflight is to receive 204 with an empty body.  The
  code misses one case: for \<open>GET /toggle?name=%\<close> the call of \<open>decodeURIComponent\<close>
  throws \<open>URIError\<close>, nothing catches it, and the handler ends in failure on the
  unchanged platform state, before \<open>writeHead(204)\<close>: no response is written.
\<close>

theorem malformed_escape_gets_no_response:
  "requestListener (get_request ''/toggle?name=%'') new_ServerResponse kitchen_garage
     = Failed URIError kitchen_garage"
  by (simp add: requestListener_def handleRequest_def requested_name_def split_def js_def)

text \<open>
  C8.  A request with the verb \<open>OPTIONS\<close>, whatever its URL, is answered at once with
  status 200, the four CORS headers and an empty body.  The platform state is the one
  the request found: \<open>handleRequest\<close> does not run, nothing is toggled or logged.
\<close>

theorem preflight_answered_200:
  assumes "http_method req = Some (js ''OPTIONS'')"
  shows "requestListener req new_ServerResponse s =
           Done \<lparr>headers =
                   [(js ''Access-Control-Allow-Origin'', js ''*''),
                    (js ''Access-Control-Allow-Methods'', js ''GET, POST, OPTIONS, PUT, PATCH, DELETE''),
                    (js ''Access-Control-Allow-Headers'', js ''X-Requested-With,content-type''),
                    (js ''Access-Control-Allow-Credentials'', js ''true'')],
                 writtenHead = Some 200, body = [], ended = True\<rparr> s"
  using assms
  by (simp add: requestListener_def setCorsHeaders_def setHeader_def new_ServerResponse_def
      end_response_def writeHead_def js_def)

theorem preflight_answered_200_witness:
  "requestListener \<lparr>http_method = Some (js ''OPTIONS''), url = Some (js ''/toggle?name=Kitchen'')\<rparr>
       new_ServerResponse kitchen_garage =
     Done \<lparr>headers =
             [(js ''Access-Control-Allow-Origin'', js ''*''),
              (js ''Access-Control-Allow-Methods'', js ''GET, POST, OPTIONS, PUT, PATCH, DELETE''),
              (js ''Access-Control-Allow-Headers'', js ''X-Requested-With,content-type''),
              (js ''Access-Control-Allow-Credentials'', js ''true'')],
           writtenHead = Some 200, body = [], ended = True\<rparr> kitchen_garage"
proof -
  have a: "http_method \<lparr>http_method = Some (js ''OPTIONS''), url = Some (js ''/toggle?name=Kitchen'')\<rparr>
             = Some (js ''OPTIONS'')"
    by simp
  show ?thesis
    by (rule preflight_answered_200 [OF a])
qed

text \<open>
  C10.  A URL that contains \<open>/toggle\<close> and no \<open>?\<close> makes the handler look up the
  empty name.  Unless a controller has the empty name, no controller object changes, an
  error entry with the empty name is logged, and the response is 204 with nothing written
  to the body.
\<close>

theorem toggle_without_query_looks_up_empty_name:
  assumes "http_method req \<noteq> Some (js ''OPTIONS'')"
    and "url req = Some u"
    and "includes_str u (js ''/toggle'')"
    and "0x3F \<notin> set u"
  shows "requested_name u = Inr []
       \<and> ((\<forall>i\<in>set (instances s). getName i s \<noteq> [])
            \<longrightarrow> requestListener req res s =
                  Done (end_response (writeHead 204 (setCorsHeaders res)))
                    (emit (LogError (js ''Could not find instance for name:'') [Str []]) s)
                \<and> objects (state_of (requestListener req res s)) = objects s
                \<and> writtenHead (end_response (writeHead 204 (setCorsHeaders res))) = Some 204
                \<and> body (end_response (writeHead 204 (setCorsHeaders res))) = body res)"
proof -
  have n: "requested_name u = Inr []"
    using assms(4) by (rule requested_name_no_query)
  show ?thesis
    using requestListener_unmatched [OF assms(1-3) n, of s res] n
    by (simp add: response_204)
qed

theorem toggle_without_query_looks_up_empty_name_witness:
  "requested_name (js ''/toggle'') = Inr []
   \<and> requestListener (get_request ''/toggle'') new_ServerResponse kitchen_garage =
       Done (end_response (writeHead 204 (setCorsHeaders new_ServerResponse)))
         (emit (LogError (js ''Could not find instance for name:'') [Str []]) kitchen_garage)
   \<and> objects (state_of (requestListener (get_request ''/toggle'') new_ServerResponse kitchen_garage))
       = objects kitchen_garage
   \<and> body (end_response (writeHead 204 (setCorsHeaders new_ServerResponse))) = []"
proof -
  have a1: "http_method (get_request ''/toggle'') \<noteq> Some (js ''OPTIONS'')"
    by (simp add: js_def)
  have a2: "url (get_request ''/toggle'') = Some (js ''/toggle'')"
    by simp
  have a3: "includes_str (js ''/toggle'') (js ''/toggle'')"
    by (simp add: js_def)
  have a4: "0x3F \<notin> set (js ''/toggle'')"
    by (simp add: js_def)
  have a5: "\<forall>i\<in>set (instances kitchen_garage). getName i kitchen_garage \<noteq> []"
    by (simp add: kitchen_garage_instances kitchen_garage_names) (simp add: js_def)
  show ?thesis
    using toggle_without_query_looks_up_empty_name [OF a1 a2 a3 a4, of kitchen_garage new_ServerResponse] a5
    by (simp add: new_ServerResponse_def)
qed

section \<open>Reconciliation\<close>


lemma discoverDevice_frame:
  "accessories (discoverDevice button s) = accessories s"
  "uuid_generate (discoverDevice button s) = uuid_generate s"
  by (simp_all add: discoverDevice_def new_PlatformSwitchAccessory_def Let_def split: option.split)



lemma cached_for_discoverDevice [simp]:
  "cached_for (discoverDevice b s) button = cached_for s button"
  by (simp add: cached_for_def discoverDevice_frame)








section \<open>The live controller set\<close>

lemma stable_andThen:
  assumes "stable f m out" and "\<And>a s. stable f (f s) (g a s)"
  shows "stable f m (andThen out g)"
  using assms(1)
proof (induction out arbitrary: m)
  case (Done a s)
  then show ?case using assms(2) [of s a] by simp
next
  case (Failed e s)
  then show ?case by simp
next
  case (Suspended ms s k)
  then show ?case by simp
qed

lemma stable_sleep: "stable f (f s) (sleep ms s)"
  by (simp add: sleep_def)

lemma stable_setOn: "stable instances (instances s) (setOn this v s)"
  by (simp add: setOn_def Let_def sleep_def)

lemma instances_updateCharacteristic_On [simp]:
  "instances (updateCharacteristic_On this s) = instances s"
  by (simp add: updateCharacteristic_On_def)

lemma stable_toggleState: "stable instances (instances s) (toggleState this s)"
  unfolding toggleState_def Let_def
  by (rule stable_andThen [OF stable_setOn]) simp

lemma stable_setStateOn: "stable instances (instances s) (setStateOn this s)"
  unfolding setStateOn_def
proof (rule stable_andThen [OF stable_setOn])
  fix a s1
  show "stable instances (instances s1)
          (andThen (sleep 1500 (updateCharacteristic_On this s1))
             (\<lambda>_ s2. andThen (setOn this False s2) (\<lambda>_ s3. Done () (updateCharacteristic_On this s3))))"
  proof (rule stable_andThen)
    show "stable instances (instances s1) (sleep 1500 (updateCharacteristic_On this s1))"
      using stable_sleep [of instances "updateCharacteristic_On this s1" 1500] by simp
  next
    fix b s2
    show "stable instances (instances s2)
            (andThen (setOn this False s2) (\<lambda>_ s3. Done () (updateCharacteristic_On this s3)))"
      by (rule stable_andThen [OF stable_setOn]) simp
  qed
qed

lemma stable_handleRequest: "stable instances (instances s) (handleRequest req res s)"
  unfolding handleRequest_def
proof (rule stable_andThen)
  show "stable instances (instances s)
     (case url req of None \<Rightarrow> Done () s
      | Some u \<Rightarrow>
          if includes_str u (js ''/toggle'')
          then case requested_name u of Inl e \<Rightarrow> Failed e s
               | Inr nm \<Rightarrow>
                   (case find (\<lambda>i. getName i s = nm) (instances s) of
                      None \<Rightarrow> Done () (emit (LogError (js ''Could not find instance for name:'') [Str nm]) s)
                    | Some instance \<Rightarrow> toggleState instance s)
          else Done () s)"
    by (simp add: stable_toggleState split: option.split sum.split)
qed simp

lemma stable_requestListener: "stable instances (instances s) (requestListener req res s)"
  by (simp add: requestListener_def Let_def stable_handleRequest)

lemma instances_discoverDevice:
  "\<exists>new. instances (discoverDevice button s) = instances s @ new"
  by (simp add: discoverDevice_def new_PlatformSwitchAccessory_def Let_def split: option.split)

lemma instances_discoverLoop:
  "\<exists>new. instances (discoverLoop switches s) = instances s @ new"
proof (induction switches arbitrary: s)
  case Nil
  then show ?case by simp
next
  case (Cons button switches)
  obtain n1 where n1: "instances (discoverDevice button s) = instances s @ n1"
    using instances_discoverDevice by blast
  obtain n2 where "instances (discoverLoop switches (discoverDevice button s))
      = instances (discoverDevice button s) @ n2"
    using Cons.IH by blast
  then show ?case using n1 by simp
qed

lemma instances_didFinishLaunching:
  "\<exists>new. instances (didFinishLaunching s) = instances s @ new"
  using instances_discoverLoop [of _ "createHttpService s"]
  by (simp add: didFinishLaunching_def discoverDevices_def createHttpService_def split: option.split)

lemma settle_http_stable:
  assumes "stable instances m out" and "\<forall>t\<in>set (timers p). task_stable t"
  shows "instances (platform (settle_http out p)) = m
       \<and> (\<forall>t\<in>set (timers (settle_http out p)). task_stable t)"
  using assms by (cases out) (auto simp: settle_http_def)

lemma settle_controller_stable:
  assumes "stable instances m out" and "\<forall>t\<in>set (timers p). task_stable t"
  shows "instances (platform (settle_controller out p)) = m
       \<and> (\<forall>t\<in>set (timers (settle_controller out p)). task_stable t)"
  using assms by (cases out) (auto simp: settle_controller_def)

lemma perform_step:
  assumes "\<forall>t\<in>set (timers p). task_stable t" and "perform a p = Some p'"
  shows "(\<forall>t\<in>set (timers p'). task_stable t)
       \<and> (if a = DidFinishLaunching
          then \<exists>new. instances (platform p') = instances (platform p) @ new
          else instances (platform p') = instances (platform p))"
proof (cases a)
  case (ConfigureAccessory acc)
  then show ?thesis using assms by (auto simp: configureAccessory_def Let_def split: if_splits)
next
  case DidFinishLaunching
  then show ?thesis using assms instances_didFinishLaunching [of "platform p"]
    by (auto split: if_splits)
next
  case Listening
  then show ?thesis using assms by (auto simp: onListening_def split: if_splits)
next
  case (Request req)
  then show ?thesis
    using assms settle_http_stable [OF stable_requestListener [where s = "platform p" and req = req and res = new_ServerResponse] assms(1)]
    by (auto split: if_splits)
next
  case (CallGetOn i)
  then show ?thesis using assms by (auto split: if_splits)
next
  case (CallSetOn i v)
  then show ?thesis
    using assms settle_controller_stable [OF stable_setOn [where s = "platform p" and this = i and v = v] assms(1)]
    by (auto split: if_splits)
next
  case (CallToggleState i)
  then show ?thesis
    using assms settle_controller_stable [OF stable_toggleState [where s = "platform p" and this = i] assms(1)]
    by (auto split: if_splits)
next
  case (CallSetStateOn i)
  then show ?thesis
    using assms settle_controller_stable [OF stable_setStateOn [where s = "platform p" and this = i] assms(1)]
    by (auto split: if_splits)
next
  case (TimerFires j)
  with assms(2) have j: "j < length (timers p)"
    by (auto split: if_splits)
  let ?p = "p\<lparr>timers := take j (timers p) @ drop (Suc j) (timers p)\<rparr>"
  have rest: "\<forall>t\<in>set (timers ?p). task_stable t"
    using assms(1) by (auto dest: in_set_takeD in_set_dropD)
  have tj: "task_stable (timers p ! j)"
    using assms(1) j by simp
  show ?thesis
  proof (cases "timers p ! j")
    case (HttpTask k)
    then have "stable instances (instances (platform p)) (k (platform p))"
      using tj by simp
    from settle_http_stable [OF this rest] show ?thesis
      using assms(2) TimerFires j HttpTask by (auto simp: Let_def)
  next
    case (ControllerTask k)
    then have "stable instances (instances (platform p)) (k (platform p))"
      using tj by simp
    from settle_controller_stable [OF this rest] show ?thesis
      using assms(2) TimerFires j ControllerTask by (auto simp: Let_def)
  qed
qed

lemma launched_perform:
  assumes "perform a p = Some p'"
  shows "launched p' = (launched p \<or> a = DidFinishLaunching)"
proof (cases a)
  case (TimerFires j)
  then show ?thesis using assms
    by (cases "timers p ! j")
      (auto simp: settle_http_def settle_controller_def Let_def split: if_splits outcome.splits)
qed (use assms in \<open>auto simp: settle_http_def settle_controller_def split: if_splits outcome.splits\<close>)

lemma process_inv_perform:
  assumes "process_inv p" and "perform a p = Some p'"
  shows "process_inv p'"
  using perform_step [OF _ assms(2)] launched_perform [OF assms(2)] assms(1)
  by (auto simp: process_inv_def split: if_splits)

lemma process_inv_run:
  assumes "process_inv p" and "run acts p = Some p'"
  shows "process_inv p'"
  using assms
proof (induction acts arbitrary: p)
  case Nil
  then show ?case by simp
next
  case (Cons a acts)
  then show ?case
    by (auto split: option.splits dest: process_inv_perform)
qed

lemma process_inv_boot: "process_inv (boot cname cswitches gen)"
  by (simp add: process_inv_def boot_def new_ExampleHomebridgePlatform_def)

text \<open>
  C9.  In every state the process reaches from its start, \<open>instances\<close> is empty as long
  as \<open>didFinishLaunching\<close> has not run, and the only step that changes the array is that
  launch, which appends to it.  Restoring a cached accessory, the listening callback, a
  request, a call of \<open>getOn\<close>, \<open>setOn\<close>, \<open>toggleState\<close> or \<open>setStateOn\<close>, and the
  firing of any waiting timer leave the array as it is.
\<close>

theorem instances_change_only_at_launch:
  assumes "run acts (boot cname cswitches gen) = Some p"
    and "perform a p = Some p'"
  shows "(\<not> launched p \<longrightarrow> instances (platform p) = [])
       \<and> (if a = DidFinishLaunching
          then \<exists>new. instances (platform p') = instances (platform p) @ new
          else instances (platform p') = instances (platform p))"
proof -
  have inv: "process_inv p"
    using process_inv_run [OF process_inv_boot assms(1)] .
  show ?thesis
    using perform_step [OF _ assms(2)] inv by (simp add: process_inv_def)
qed

lemma example_run:
  "\<exists>p. run example_actions (boot None (Some [kitchen, garage]) example_generate) = Some p
       \<and> launched p \<and> instances (platform p) = [0, 1] \<and> length (timers p) = 1"
  by (simp add: example_actions_def boot_def new_ExampleHomebridgePlatform_def
      configureAccessory_def didFinishLaunching_def createHttpService_def discoverDevices_def
      discoverDevice_def new_PlatformSwitchAccessory_def onListening_def requestListener_def
      handleRequest_def requested_name_def split_def toggleState_def setOn_def sleep_def
      getName_def getOn_def settle_http_def get_request_def cached_def kitchen_def garage_def
      example_generate_def Let_def emit_def js_def)

theorem instances_change_only_at_launch_witness:
  "\<exists>p p'. run example_actions (boot None (Some [kitchen, garage]) example_generate) = Some p
       \<and> perform (TimerFires 0) p = Some p'
       \<and> launched p
       \<and> instances (platform p) = [0, 1]
       \<and> instances (platform p') = [0, 1]"
proof -
  obtain p where p: "run example_actions (boot None (Some [kitchen, garage]) example_generate) = Some p"
    and l: "launched p" and i: "instances (platform p) = [0, 1]" and t: "length (timers p) = 1"
    using example_run by blast
  obtain p' where p': "perform (TimerFires 0) p = Some p'"
    using t by (cases "timers p ! 0") (simp_all add: Let_def)
  have "instances (platform p') = instances (platform p)"
    using instances_change_only_at_launch [OF p p'] by simp
  then show ?thesis
    using p p' l i by auto
qed

end
